theory Spec2Isabelle
  imports Main
begin

section \<open>The SAML authentication provider\<close>

text \<open>
  A shallow embedding of \<^verbatim>\<open>SAMLAuthenticationProvider\<close> (the class with the methods
  \<^verbatim>\<open>login\<close>, \<^verbatim>\<open>authenticate\<close> and \<^verbatim>\<open>logout\<close>). Every \<^verbatim>\<open>await\<close> of the source is
  sequential, so an asynchronous method is a function that takes the calls made to the
  collaborators so far and returns its result with the calls extended. A rejected promise
  or a thrown error is the \<open>Inl\<close> of a sum. The debug logger is left out.
\<close>

subsection \<open>JavaScript strings and truthiness\<close>

text \<open>
  A \<^verbatim>\<open>string | undefined\<close> is a \<open>string option\<close>. \<^verbatim>\<open>!s\<close> holds of the undefined and
  of the empty string.
\<close>

fun truthy :: "string option \<Rightarrow> bool" where
  "truthy None = False"
| "truthy (Some s) = (s \<noteq> [])"

text \<open>\<^verbatim>\<open>s || d\<close> for a default string \<open>d\<close>.\<close>

fun or_else :: "string option \<Rightarrow> string \<Rightarrow> string" where
  "or_else None d = d"
| "or_else (Some s) d = (if s = [] then d else s)"

text \<open>
  The value of an HTTP header is a string of Latin-1 code units, one \<open>char\<close> each. In that
  range the class \<^verbatim>\<open>\s\<close> of a regular expression holds the code units 9 to 13, 32 and 160.
\<close>

definition is_whitespace :: "char \<Rightarrow> bool" where
  "is_whitespace c = (of_char c \<in> {9, 10, 11, 12, 13, 32, 160 :: nat})"

text \<open>
  \<^verbatim>\<open>s.split(/\s+/)\<close>: the pieces of \<open>s\<close> between the maximal runs of whitespace. \<open>cur\<close> is
  the piece being read, reversed; \<open>inws\<close> tells that the last code unit was whitespace.
\<close>

fun split_ws_from :: "string \<Rightarrow> string \<Rightarrow> bool \<Rightarrow> string list" where
  "split_ws_from [] cur inws = [rev cur]"
| "split_ws_from (c # cs) cur inws =
     (if is_whitespace c
      then (if inws then split_ws_from cs [] True else rev cur # split_ws_from cs [] True)
      else split_ws_from cs (c # cur) False)"

definition split_ws :: "string \<Rightarrow> string list" where
  "split_ws s = split_ws_from s [] False"

text \<open>
  \<^verbatim>\<open>toLowerCase\<close> on a Latin-1 code unit: the letters A to Z, and the accented capitals
  192 to 222 other than the multiplication sign 215, move up by 32.
\<close>

definition toLowerCase_char :: "char \<Rightarrow> char" where
  "toLowerCase_char c =
     (let n = (of_char c :: nat)
      in if (65 \<le> n \<and> n \<le> 90) \<or> (192 \<le> n \<and> n \<le> 222 \<and> n \<noteq> 215)
         then char_of (n + 32) else c)"

definition toLowerCase :: "string \<Rightarrow> string" where
  "toLowerCase s = map toLowerCase_char s"

subsection \<open>Data model\<close>

text \<open>
  A thrown value. \<^verbatim>\<open>Boom.badRequest(message)\<close> of the library boom is an error with the
  HTTP status 400; an error without a status is \<^verbatim>\<open>new Error(message)\<close>.
\<close>

datatype error = Boom nat string | Error string

definition Boom_badRequest :: "string \<Rightarrow> error" where
  "Boom_badRequest message = Boom 400 message"

text \<open>The interface \<^verbatim>\<open>ProviderState\<close>.\<close>

record provider_state =
  accessToken :: "string option"
  refreshToken :: "string option"
  requestId :: "string option"
  nextURL :: "string option"

text \<open>
  Modelled from the spec: the type \<^verbatim>\<open>TokenPair\<close> of \<^verbatim>\<open>../tokens\<close>, "access token +
  refresh token".
\<close>

record token_pair =
  pair_accessToken :: string
  pair_refreshToken :: string

definition state_of_pair :: "token_pair \<Rightarrow> provider_state" where
  "state_of_pair p =
     \<lparr>accessToken = Some (pair_accessToken p), refreshToken = Some (pair_refreshToken p),
      requestId = None, nextURL = None\<rparr>"

text \<open>
  Modelled from the spec: the type \<^verbatim>\<open>AuthenticatedUser\<close> of \<^verbatim>\<open>common/model\<close>:
  "\<^verbatim>\<open>username\<close>, \<^verbatim>\<open>authentication_realm.name\<close>, plus opaque profile fields not interpreted
  by the provider".
\<close>

record authenticated_user =
  username :: string
  authentication_realm_name :: string
  profile :: string

type_synonym headers = "(string \<times> string) list"

text \<open>
  Modelled from the spec: the class \<^verbatim>\<open>AuthenticationResult\<close> of
  \<^verbatim>\<open>../authentication_result\<close>, one of \<^verbatim>\<open>notHandled\<close>,
  \<^verbatim>\<open>succeeded(user, {authHeaders?, authResponseHeaders?, state?})\<close>,
  \<^verbatim>\<open>redirectTo(url, {state?})\<close> and \<^verbatim>\<open>failed(error, {authResponseHeaders?})\<close>.
\<close>

datatype authentication_result =
  NotHandled
| Succeeded authenticated_user "headers option" "headers option" "provider_state option"
| RedirectTo string "provider_state option"
| Failed error "headers option"

text \<open>
  The tests \<^verbatim>\<open>notHandled()\<close> and \<^verbatim>\<open>failed()\<close> and the fields \<^verbatim>\<open>state\<close> and \<^verbatim>\<open>user\<close> of a
  result; \<^verbatim>\<open>shouldUpdateState()\<close> holds when the state is present.
\<close>

fun notHandled :: "authentication_result \<Rightarrow> bool" where
  "notHandled NotHandled = True"
| "notHandled _ = False"

fun failed :: "authentication_result \<Rightarrow> bool" where
  "failed (Failed _ _) = True"
| "failed _ = False"

fun result_state :: "authentication_result \<Rightarrow> provider_state option" where
  "result_state (Succeeded _ _ _ st) = st"
| "result_state (RedirectTo _ st) = st"
| "result_state _ = None"

fun result_user :: "authentication_result \<Rightarrow> authenticated_user option" where
  "result_user (Succeeded u _ _ _) = Some u"
| "result_user _ = None"

text \<open>
  Modelled from the spec: the class \<^verbatim>\<open>DeauthenticationResult\<close> of
  \<^verbatim>\<open>../deauthentication_result\<close>, "\<^verbatim>\<open>notHandled | redirectTo(url) | failed(error)\<close>".
\<close>

datatype deauthentication_result =
  DNotHandled
| DRedirectTo string
| DFailed error

text \<open>
  What the provider reads of a \<^verbatim>\<open>KibanaRequest\<close>. A header of Node is a string, an array of
  strings or undefined.
\<close>

datatype header_value = HString string | HArray "string list"

record request =
  headers_authorization :: "header_value option"
  query_SAMLRequest :: "string option"
  url_path :: string
  url_search :: "string option"

text \<open>The body of \<^verbatim>\<open>samlPrepare\<close> and \<^verbatim>\<open>samlInvalidate\<close> names a realm or an ACS URL.\<close>

datatype realm_or_acs = Realm string | Acs string

text \<open>The responses of Elasticsearch, with the fields the provider destructures.\<close>

record saml_authenticate_response =
  access_token :: string
  refresh_token :: string

record saml_prepare_response =
  prepare_id :: string
  prepare_redirect :: string

subsection \<open>The collaborators\<close>

text \<open>A call the provider makes to a collaborator, with its arguments.\<close>

datatype call =
  GetUser request "headers option"
| SamlAuthenticate "string list" string
| SamlPrepare realm_or_acs
| SamlLogout "string option" "string option"
| SamlInvalidate string realm_or_acs
| TokensRefresh string
| TokensInvalidate "string option" "string option"

text \<open>
  The collaborators are parameters of the provider: \<^verbatim>\<open>getUser\<close> of the base class, the
  four operations of \<^verbatim>\<open>options.client.callAsInternalUser\<close>, the token service
  \<^verbatim>\<open>options.tokens\<close> with the static \<^verbatim>\<open>Tokens.isAccessTokenExpiredError\<close>,
  \<^verbatim>\<open>canRedirectRequest\<close>, \<^verbatim>\<open>options.basePath.get\<close> and \<^verbatim>\<open>options.getServerBaseURL\<close>.
  An asynchronous one answers from the calls made before it and its arguments, with the
  value it resolves to (\<open>Inr\<close>) or the error it rejects with (\<open>Inl\<close>). The logout and
  invalidate operations resolve to their optional \<^verbatim>\<open>redirect\<close>; the refresh to a token pair
  or to null.
\<close>

record services =
  getUser :: "call list \<Rightarrow> request \<Rightarrow> headers option \<Rightarrow> error + authenticated_user"
  samlAuthenticate :: "call list \<Rightarrow> string list \<Rightarrow> string \<Rightarrow> error + saml_authenticate_response"
  samlPrepare :: "call list \<Rightarrow> realm_or_acs \<Rightarrow> error + saml_prepare_response"
  samlLogout :: "call list \<Rightarrow> string option \<Rightarrow> string option \<Rightarrow> error + string option"
  samlInvalidate :: "call list \<Rightarrow> string \<Rightarrow> realm_or_acs \<Rightarrow> error + string option"
  tokens_refresh :: "call list \<Rightarrow> string \<Rightarrow> error + token_pair option"
  tokens_invalidate :: "call list \<Rightarrow> string option \<Rightarrow> string option \<Rightarrow> error + unit"
  isAccessTokenExpiredError :: "error \<Rightarrow> bool"
  canRedirectRequest :: "request \<Rightarrow> bool"
  basePath_get :: "request \<Rightarrow> string"
  getServerBaseURL :: string

subsection \<open>The provider\<close>

text \<open>
  The provider holds its options (the collaborators \<open>sv\<close>) and the optional name of the
  Elasticsearch realm, \<^verbatim>\<open>this.realm\<close>.
\<close>

definition isSAMLRequestQuery :: "request \<Rightarrow> bool" where
  "isSAMLRequestQuery request = truthy (query_SAMLRequest request)"

definition getACS :: "services \<Rightarrow> request \<Rightarrow> string" where
  "getACS sv request = getServerBaseURL sv @ basePath_get sv request @ ''/api/security/v1/saml''"

text \<open>\<^verbatim>\<open>this.realm ? { realm: this.realm } : { acs: this.getACS(request) }\<close>\<close>

definition realm_or_getACS :: "services \<Rightarrow> string option \<Rightarrow> request \<Rightarrow> realm_or_acs" where
  "realm_or_getACS sv realm request =
     (case realm of
        None \<Rightarrow> Acs (getACS sv request)
      | Some r \<Rightarrow> if r = [] then Acs (getACS sv request) else Realm r)"

text \<open>\<^verbatim>\<open>authorization.split(/\s+/)[0]\<close>; the split of a string is never empty.\<close>

definition authenticationSchema :: "string \<Rightarrow> string" where
  "authenticationSchema authorization =
     (case split_ws authorization of [] \<Rightarrow> [] | w # _ \<Rightarrow> w)"

text \<open>
  \<^verbatim>\<open>authenticateViaHeader\<close> returns the authentication result with the flag
  \<^verbatim>\<open>headerNotRecognized\<close> (undefined is \<open>False\<close>).
\<close>

definition authenticateViaHeader ::
  "services \<Rightarrow> request \<Rightarrow> call list \<Rightarrow> (authentication_result \<times> bool) \<times> call list" where
  "authenticateViaHeader sv request tr =
     (case headers_authorization request of
        None \<Rightarrow> ((NotHandled, False), tr)
      | Some (HArray _) \<Rightarrow> ((NotHandled, False), tr)
      | Some (HString authorization) \<Rightarrow>
          if authorization = [] then ((NotHandled, False), tr)
          else if toLowerCase (authenticationSchema authorization) \<noteq> ''bearer''
          then ((NotHandled, True), tr)
          else (case getUser sv tr request None of
                  Inr user \<Rightarrow> ((Succeeded user None None None, False), tr @ [GetUser request None])
                | Inl err \<Rightarrow> ((Failed err None, False), tr @ [GetUser request None])))"

text \<open>
  \<^verbatim>\<open>authenticateViaState\<close>: the user of the access token of the state, asked for with the
  header \<^verbatim>\<open>authorization: Bearer <token>\<close>.
\<close>

definition authenticateViaState ::
  "services \<Rightarrow> request \<Rightarrow> provider_state \<Rightarrow> call list \<Rightarrow> authentication_result \<times> call list" where
  "authenticateViaState sv request state tr =
     (case accessToken state of
        None \<Rightarrow> (NotHandled, tr)
      | Some token \<Rightarrow>
          if token = [] then (NotHandled, tr)
          else
            let authHeaders = [(''authorization'', ''Bearer '' @ token)]
            in (case getUser sv tr request (Some authHeaders) of
                  Inr user \<Rightarrow>
                    (Succeeded user (Some authHeaders) None None,
                     tr @ [GetUser request (Some authHeaders)])
                | Inl err \<Rightarrow> (Failed err None, tr @ [GetUser request (Some authHeaders)])))"

text \<open>
  \<^verbatim>\<open>authenticateViaHandshake\<close>: the prepare operation, for a request that can be redirected.
\<close>

definition authenticateViaHandshake ::
  "services \<Rightarrow> string option \<Rightarrow> request \<Rightarrow> call list \<Rightarrow> authentication_result \<times> call list" where
  "authenticateViaHandshake sv realm request tr =
     (if \<not> canRedirectRequest sv request then (NotHandled, tr)
      else
        let preparePayload = realm_or_getACS sv realm request
        in (case samlPrepare sv tr preparePayload of
              Inr response \<Rightarrow>
                (RedirectTo (prepare_redirect response)
                   (Some \<lparr>accessToken = None, refreshToken = None,
                          requestId = Some (prepare_id response),
                          nextURL = Some (basePath_get sv request @ url_path request)\<rparr>),
                 tr @ [SamlPrepare preparePayload])
            | Inl err \<Rightarrow> (Failed err None, tr @ [SamlPrepare preparePayload])))"

text \<open>
  \<^verbatim>\<open>authenticateViaRefreshToken\<close>: the refresh resolves to a token pair or to null, or throws.
\<close>

definition authenticateViaRefreshToken ::
  "services \<Rightarrow> string option \<Rightarrow> request \<Rightarrow> provider_state \<Rightarrow> call list
     \<Rightarrow> authentication_result \<times> call list" where
  "authenticateViaRefreshToken sv realm request state tr =
     (case refreshToken state of
        None \<Rightarrow> (NotHandled, tr)
      | Some token \<Rightarrow>
          if token = [] then (NotHandled, tr)
          else (case tokens_refresh sv tr token of
                  Inl err \<Rightarrow> (Failed err None, tr @ [TokensRefresh token])
                | Inr None \<Rightarrow>
                    if canRedirectRequest sv request
                    then authenticateViaHandshake sv realm request (tr @ [TokensRefresh token])
                    else (Failed (Boom_badRequest ''Both access and refresh tokens are expired.'') None,
                          tr @ [TokensRefresh token])
                | Inr (Some refreshedTokenPair) \<Rightarrow>
                    let authHeaders =
                          [(''authorization'', ''Bearer '' @ pair_accessToken refreshedTokenPair)];
                        tr' = tr @ [TokensRefresh token]
                    in (case getUser sv tr' request (Some authHeaders) of
                          Inr user \<Rightarrow>
                            (Succeeded user (Some authHeaders) None
                               (Some (state_of_pair refreshedTokenPair)),
                             tr' @ [GetUser request (Some authHeaders)])
                        | Inl err \<Rightarrow>
                            (Failed err None, tr' @ [GetUser request (Some authHeaders)]))))"

text \<open>
  \<^verbatim>\<open>authenticate\<close>: the header, then the state, then the refresh token after a failure that
  is an expired access token, then the handshake.
\<close>

definition authenticate ::
  "services \<Rightarrow> string option \<Rightarrow> request \<Rightarrow> provider_state option \<Rightarrow> call list
     \<Rightarrow> authentication_result \<times> call list" where
  "authenticate sv realm request state tr =
     (case authenticateViaHeader sv request tr of
        ((authenticationResult, headerNotRecognized), tr1) \<Rightarrow>
          if headerNotRecognized then (authenticationResult, tr1)
          else
            let (authenticationResult, tr2) =
                  (case state of
                     None \<Rightarrow> (authenticationResult, tr1)
                   | Some st \<Rightarrow>
                       if notHandled authenticationResult
                       then (case authenticateViaState sv request st tr1 of
                               (Failed err h, tr') \<Rightarrow>
                                 if isAccessTokenExpiredError sv err
                                 then authenticateViaRefreshToken sv realm request st tr'
                                 else (Failed err h, tr')
                             | other \<Rightarrow> other)
                       else (authenticationResult, tr1))
            in if notHandled authenticationResult
               then authenticateViaHandshake sv realm request tr2
               else (authenticationResult, tr2))"

text \<open>\<^verbatim>\<open>ids: stateRequestId ? [stateRequestId] : []\<close>\<close>

fun ids_of :: "string option \<Rightarrow> string list" where
  "ids_of None = []"
| "ids_of (Some stateRequestId) = (if stateRequestId = [] then [] else [stateRequestId])"

text \<open>
  \<^verbatim>\<open>loginWithSAMLResponse\<close>: without a state the request id and the redirect URL are the
  empty string.
\<close>

definition loginWithSAMLResponse ::
  "services \<Rightarrow> request \<Rightarrow> string \<Rightarrow> provider_state option \<Rightarrow> call list
     \<Rightarrow> authentication_result \<times> call list" where
  "loginWithSAMLResponse sv request samlResponse state tr =
     (let stateRequestId = (case state of None \<Rightarrow> Some [] | Some st \<Rightarrow> requestId st);
          stateRedirectURL = (case state of None \<Rightarrow> Some [] | Some st \<Rightarrow> nextURL st)
      in if state \<noteq> None \<and> (\<not> truthy stateRequestId \<or> \<not> truthy stateRedirectURL)
         then (Failed (Boom_badRequest
                 ''SAML response state does not have corresponding request id or redirect URL.'')
                 None, tr)
         else (case samlAuthenticate sv tr (ids_of stateRequestId) samlResponse of
                 Inr response \<Rightarrow>
                   (RedirectTo (or_else stateRedirectURL (basePath_get sv request @ ''/''))
                      (Some \<lparr>accessToken = Some (access_token response),
                             refreshToken = Some (refresh_token response),
                             requestId = None, nextURL = None\<rparr>),
                    tr @ [SamlAuthenticate (ids_of stateRequestId) samlResponse])
               | Inl err \<Rightarrow>
                   (Failed err None,
                    tr @ [SamlAuthenticate (ids_of stateRequestId) samlResponse])))"

text \<open>
  \<^verbatim>\<open>loginWithNewSAMLResponse\<close>. The test \<^verbatim>\<open>shouldUpdateState()\<close> and the read of
  \<^verbatim>\<open>payloadAuthenticationResult.state\<close> are one case distinction, and so are the test
  \<^verbatim>\<open>user === undefined\<close> and the read of the user. The existing state is the value of
  \<^verbatim>\<open>authenticationResult.state || state\<close> in \<^verbatim>\<open>login\<close>; were it null, reading its access
  token inside the \<^verbatim>\<open>try\<close> would throw a TypeError, which the \<^verbatim>\<open>catch\<close> returns.
\<close>

definition loginWithNewSAMLResponse ::
  "services \<Rightarrow> request \<Rightarrow> string \<Rightarrow> provider_state option \<Rightarrow> authenticated_user \<Rightarrow> call list
     \<Rightarrow> authentication_result \<times> call list" where
  "loginWithNewSAMLResponse sv request samlResponse existingState user tr =
     (case loginWithSAMLResponse sv request samlResponse None tr of
        (payloadAuthenticationResult, tr1) \<Rightarrow>
          if failed payloadAuthenticationResult then (payloadAuthenticationResult, tr1)
          else (case result_state payloadAuthenticationResult of
             None \<Rightarrow>
               (Failed (Error ''Login with SAML payload did not produce access and refresh tokens.'')
                  None, tr1)
           | Some newState \<Rightarrow>
               (case authenticateViaState sv request newState tr1 of
                  (newUserAuthenticationResult, tr2) \<Rightarrow>
                    if failed newUserAuthenticationResult then (newUserAuthenticationResult, tr2)
                    else (case result_user newUserAuthenticationResult of
                       None \<Rightarrow>
                         (Failed (Error
                            ''Could not retrieve user information using tokens produced for the SAML payload.'')
                            None, tr2)
                     | Some newUser \<Rightarrow>
                         (case existingState of
                            None \<Rightarrow>
                              (Failed (Error ''TypeError: Cannot read property accessToken of null'')
                                 None, tr2)
                          | Some existing \<Rightarrow>
                              (case tokens_invalidate sv tr2 (accessToken existing)
                                      (refreshToken existing) of
                                 Inl err \<Rightarrow>
                                   (Failed err None,
                                    tr2 @ [TokensInvalidate (accessToken existing)
                                             (refreshToken existing)])
                               | Inr _ \<Rightarrow>
                                   if username newUser \<noteq> username user
                                      \<or> authentication_realm_name newUser
                                          \<noteq> authentication_realm_name user
                                   then (RedirectTo
                                           (basePath_get sv request @ ''/overwritten_session'')
                                           (Some newState),
                                         tr2 @ [TokensInvalidate (accessToken existing)
                                                  (refreshToken existing)])
                                   else (payloadAuthenticationResult,
                                         tr2 @ [TokensInvalidate (accessToken existing)
                                                  (refreshToken existing)])))))))"

text \<open>
  \<^verbatim>\<open>login\<close>: the tests \<^verbatim>\<open>notHandled()\<close> and \<^verbatim>\<open>succeeded()\<close> and the reads of the user and
  of the state of the result are one case distinction.
\<close>

definition login ::
  "services \<Rightarrow> request \<Rightarrow> string \<Rightarrow> provider_state option \<Rightarrow> call list
     \<Rightarrow> authentication_result \<times> call list" where
  "login sv request samlResponse state tr =
     (case (case state of
              None \<Rightarrow> (NotHandled, tr)
            | Some st \<Rightarrow> authenticateViaState sv request st tr) of
        (NotHandled, tr1) \<Rightarrow> loginWithSAMLResponse sv request samlResponse state tr1
      | (Succeeded user authHeaders authResponseHeaders resultState, tr1) \<Rightarrow>
          loginWithNewSAMLResponse sv request samlResponse
            (case resultState of None \<Rightarrow> state | Some st \<Rightarrow> Some st) user tr1
      | (authenticationResult, tr1) \<Rightarrow> (authenticationResult, tr1))"

subsection \<open>Logout\<close>

text \<open>
  The two single-logout operations are not wrapped: an error of the client is the error
  they reject with.
\<close>

definition performUserInitiatedSingleLogout ::
  "services \<Rightarrow> string option \<Rightarrow> string option \<Rightarrow> call list
     \<Rightarrow> (error + string option) \<times> call list" where
  "performUserInitiatedSingleLogout sv token refresh tr =
     (samlLogout sv tr token refresh, tr @ [SamlLogout token refresh])"

definition performIdPInitiatedSingleLogout ::
  "services \<Rightarrow> string option \<Rightarrow> request \<Rightarrow> call list \<Rightarrow> (error + string option) \<times> call list" where
  "performIdPInitiatedSingleLogout sv realm request tr =
     (let invalidatePayload = realm_or_getACS sv realm request;
          queryString = (if truthy (url_search request)
                         then drop 1 (or_else (url_search request) []) else [])
      in (samlInvalidate sv tr queryString invalidatePayload,
          tr @ [SamlInvalidate queryString invalidatePayload]))"

text \<open>
  The body of the \<^verbatim>\<open>try\<close> block of \<^verbatim>\<open>logout\<close>; \<open>Inl\<close> is what it throws. Reading
  \<^verbatim>\<open>state!.accessToken\<close> of an undefined state throws a TypeError.
\<close>

definition logout_try ::
  "services \<Rightarrow> string option \<Rightarrow> request \<Rightarrow> provider_state option \<Rightarrow> call list
     \<Rightarrow> (error + deauthentication_result) \<times> call list" where
  "logout_try sv realm request state tr =
     (case (if isSAMLRequestQuery request
            then performIdPInitiatedSingleLogout sv realm request tr
            else (case state of
                    None \<Rightarrow>
                      (Inl (Error ''TypeError: Cannot read property accessToken of undefined''), tr)
                  | Some st \<Rightarrow>
                      performUserInitiatedSingleLogout sv (accessToken st) (refreshToken st) tr)) of
        (Inl err, tr') \<Rightarrow> (Inl err, tr')
      | (Inr (Some redirect), tr') \<Rightarrow> (Inr (DRedirectTo redirect), tr')
      | (Inr None, tr') \<Rightarrow> (Inr (DRedirectTo ''/logged_out''), tr'))"

text \<open>
  \<^verbatim>\<open>logout\<close>: \<open>Inr\<close> is the result its promise resolves to, \<open>Inl\<close> an error it would reject
  with.
\<close>

definition logout ::
  "services \<Rightarrow> string option \<Rightarrow> request \<Rightarrow> provider_state option \<Rightarrow> call list
     \<Rightarrow> (error + deauthentication_result) \<times> call list" where
  "logout sv realm request state tr =
     (if (case state of None \<Rightarrow> True | Some st \<Rightarrow> \<not> truthy (accessToken st))
         \<and> \<not> isSAMLRequestQuery request
      then (Inr DNotHandled, tr)
      else (case logout_try sv realm request state tr of
              (Inl err, tr') \<Rightarrow> (Inr (DFailed err), tr')
            | (Inr result, tr') \<Rightarrow> (Inr result, tr')))"

subsection \<open>Concrete collaborators\<close>

text \<open>
  A request of a browser to \<^verbatim>\<open>/app/kibana\<close> without an Authorization header, two users, the
  state of an established session and the state of a handshake in flight.
\<close>

definition browser_request :: request where
  "browser_request =
     \<lparr>headers_authorization = None, query_SAMLRequest = None,
      url_path = ''/app/kibana'', url_search = None\<rparr>"

definition alice :: authenticated_user where
  "alice = \<lparr>username = ''alice'', authentication_realm_name = ''saml1'', profile = []\<rparr>"

definition bob :: authenticated_user where
  "bob = \<lparr>username = ''bob'', authentication_realm_name = ''saml1'', profile = []\<rparr>"

definition session_state :: provider_state where
  "session_state =
     \<lparr>accessToken = Some ''old-access'', refreshToken = Some ''old-refresh'',
      requestId = None, nextURL = None\<rparr>"

definition handshake_state :: provider_state where
  "handshake_state =
     \<lparr>accessToken = None, refreshToken = None,
      requestId = Some ''request-1'', nextURL = Some ''/base/app/kibana''\<rparr>"

text \<open>
  Collaborators that answer every call: each token belongs to \<open>alice\<close>, the refresh finds
  both tokens expired, the identity provider asks for no redirect on logout, and an error
  with the status 401 is the expired access token.
\<close>

definition es_up :: services where
  "es_up =
     \<lparr>getUser = (\<lambda>tr request authHeaders. Inr alice),
      samlAuthenticate = (\<lambda>tr ids content.
         Inr \<lparr>access_token = ''new-access'', refresh_token = ''new-refresh''\<rparr>),
      samlPrepare = (\<lambda>tr payload.
         Inr \<lparr>prepare_id = ''request-2'', prepare_redirect = ''https://idp.example/sso''\<rparr>),
      samlLogout = (\<lambda>tr token refresh. Inr None),
      samlInvalidate = (\<lambda>tr queryString payload. Inr None),
      tokens_refresh = (\<lambda>tr refresh. Inr None),
      tokens_invalidate = (\<lambda>tr token refresh. Inr ()),
      isAccessTokenExpiredError = (\<lambda>err. case err of Boom status _ \<Rightarrow> status = 401 | Error _ \<Rightarrow> False),
      canRedirectRequest = (\<lambda>request. True),
      basePath_get = (\<lambda>request. ''/base''),
      getServerBaseURL = ''https://kibana.example''\<rparr>"

text \<open>The same, where the stored access token has expired.\<close>

definition es_expired :: services where
  "es_expired = es_up\<lparr>getUser := (\<lambda>tr request authHeaders. Inl (Boom 401 ''token expired''))\<rparr>"

text \<open>The same, where Elasticsearch rejects the stored access token for another reason.\<close>

definition es_unavailable :: services where
  "es_unavailable = es_up\<lparr>getUser := (\<lambda>tr request authHeaders. Inl (Boom 503 ''unavailable''))\<rparr>"

text \<open>The same, for a request that cannot follow a redirect.\<close>

definition es_expired_ajax :: services where
  "es_expired_ajax = es_expired\<lparr>canRedirectRequest := (\<lambda>request. False)\<rparr>"

text \<open>The same as \<open>es_expired\<close>, where the prepare operation is rejected.\<close>

definition es_expired_no_prepare :: services where
  "es_expired_no_prepare =
     es_expired\<lparr>samlPrepare := (\<lambda>tr payload. Inl (Boom 503 ''unavailable''))\<rparr>"

text \<open>Collaborators where the invalidation of a token pair is rejected.\<close>

definition es_no_invalidate :: services where
  "es_no_invalidate =
     es_up\<lparr>tokens_invalidate := (\<lambda>tr token refresh. Inl (Boom 503 ''unavailable''))\<rparr>"

text \<open>Collaborators where both single-logout operations are rejected.\<close>

definition es_no_logout :: services where
  "es_no_logout =
     es_up\<lparr>samlLogout := (\<lambda>tr token refresh. Inl (Boom 503 ''unavailable'')),
           samlInvalidate := (\<lambda>tr queryString payload. Inl (Boom 503 ''unavailable''))\<rparr>"

text \<open>Collaborators where the identity provider asks for a redirect on logout.\<close>

definition es_slo :: services where
  "es_slo =
     es_up\<lparr>samlLogout := (\<lambda>tr token refresh. Inr (Some ''https://idp.example/slo'')),
           samlInvalidate := (\<lambda>tr queryString payload. Inr (Some ''https://idp.example/slo''))\<rparr>"

text \<open>Requests with an Authorization header, and a logout request of the identity provider.\<close>

definition bearer_request :: request where
  "bearer_request = browser_request\<lparr>headers_authorization := Some (HString ''BEARER abc'')\<rparr>"

definition basic_request :: request where
  "basic_request = browser_request\<lparr>headers_authorization := Some (HString ''Basic YWxpY2U6cHc='')\<rparr>"

definition idp_logout_request :: request where
  "idp_logout_request =
     \<lparr>headers_authorization = None, query_SAMLRequest = Some ''abc'',
      url_path = ''/api/security/v1/logout'', url_search = Some ''?SAMLRequest=abc''\<rparr>"

section \<open>Properties\<close>

subsection \<open>The scheme word of a header\<close>

text \<open>
  The first piece of the split is the header up to its first whitespace: the scheme word.
\<close>

lemma split_ws_from_first:
  "split_ws_from s cur False =
     (rev cur @ takeWhile (\<lambda>c. \<not> is_whitespace c) s)
       # (case dropWhile (\<lambda>c. \<not> is_whitespace c) s of
            [] \<Rightarrow> []
          | _ # rest \<Rightarrow> split_ws_from rest [] True)"
  by (induction s arbitrary: cur) auto

lemma authenticationSchema_takeWhile:
  "authenticationSchema authorization = takeWhile (\<lambda>c. \<not> is_whitespace c) authorization"
  by (simp add: authenticationSchema_def split_ws_def split_ws_from_first)

text \<open>The header strategy leaves a request without Authorization header to the next ones.\<close>

lemma authenticateViaHeader_no_header:
  "headers_authorization request = None \<Longrightarrow>
     authenticateViaHeader sv request tr = ((NotHandled, False), tr)"
  by (simp add: authenticateViaHeader_def)

subsection \<open>The authenticate chain and the Authorization header\<close>

text \<open>
  C1. For a request whose Authorization header is a non-empty string: when the scheme word
  (the header up to its first whitespace) is \<^verbatim>\<open>bearer\<close> in any mix of upper and lower
  case, \<open>authenticate\<close> treats the header as a bearer credential, that is, it asks
  \<^verbatim>\<open>getUser\<close> for the user of the request as it is and returns its success or its failure,
  with no other call. When the scheme word is anything else, \<open>authenticate\<close> returns
  \<open>NotHandled\<close> and has made no call at all: neither the state, nor the refresh token, nor
  a handshake has been tried, whatever the state holds.
\<close>

theorem authenticate_header_scheme:
  assumes "headers_authorization request = Some (HString authorization)"
    and "authorization \<noteq> []"
  shows "(toLowerCase (authenticationSchema authorization) = ''bearer'' \<longrightarrow>
            authenticate sv realm request state tr =
              (case getUser sv tr request None of
                 Inr user \<Rightarrow> Succeeded user None None None
               | Inl err \<Rightarrow> Failed err None,
               tr @ [GetUser request None]))
       \<and> (toLowerCase (authenticationSchema authorization) \<noteq> ''bearer'' \<longrightarrow>
            authenticate sv realm request state tr = (NotHandled, tr))"
  using assms
  by (simp add: authenticate_def authenticateViaHeader_def split: sum.splits option.splits)

text \<open>
  The header \<^verbatim>\<open>BEARER abc\<close> authenticates the user of the credential although the state
  holds a session; the header \<^verbatim>\<open>Basic ...\<close> stops the chain before the session is read.
\<close>

theorem authenticate_header_scheme_witness:
  "toLowerCase (authenticationSchema ''BEARER abc'') = ''bearer''
   \<and> authenticate es_up None bearer_request (Some session_state) [] =
       (Succeeded alice None None None, [GetUser bearer_request None])
   \<and> toLowerCase (authenticationSchema ''Basic YWxpY2U6cHc='') \<noteq> ''bearer''
   \<and> authenticate es_up None basic_request (Some session_state) [] = (NotHandled, [])"
proof -
  have bearer: "toLowerCase (authenticationSchema ''BEARER abc'') = ''bearer''"
    by code_simp
  have basic: "toLowerCase (authenticationSchema ''Basic YWxpY2U6cHc='') \<noteq> ''bearer''"
    by code_simp
  have h1: "headers_authorization bearer_request = Some (HString ''BEARER abc'')"
    by (simp add: bearer_request_def)
  have h2: "headers_authorization basic_request = Some (HString ''Basic YWxpY2U6cHc='')"
    by (simp add: basic_request_def)
  have user: "getUser es_up [] bearer_request None = Inr alice"
    by (simp add: es_up_def)
  have "authenticate es_up None bearer_request (Some session_state) [] =
          (Succeeded alice None None None, [GetUser bearer_request None])"
    using authenticate_header_scheme [OF h1, of es_up None "Some session_state" "[]"] bearer user
    by simp
  moreover have "authenticate es_up None basic_request (Some session_state) [] = (NotHandled, [])"
    using authenticate_header_scheme [OF h2, of es_up None "Some session_state" "[]"] basic
    by simp
  ultimately show ?thesis
    using bearer basic by simp
qed

subsection \<open>Login with a malformed state\<close>

text \<open>A state that lacks the request id or the redirect URL is refused before any call.\<close>

lemma loginWithSAMLResponse_malformed:
  "\<not> truthy (requestId st) \<or> \<not> truthy (nextURL st) \<Longrightarrow>
     loginWithSAMLResponse sv request samlResponse (Some st) tr =
       (Failed (Boom_badRequest
          ''SAML response state does not have corresponding request id or redirect URL.'')
          None, tr)"
  by (auto simp add: loginWithSAMLResponse_def)

text \<open>
  C2, as amended. For every call to \<open>login\<close> with a state that holds no access token and
  that has one of \<^verbatim>\<open>requestId\<close> and \<^verbatim>\<open>nextURL\<close> but not the other, \<open>login\<close> returns the
  failure with the bad-request error, and has made no call.
\<close>

theorem login_malformed_state:
  assumes "\<not> truthy (accessToken st)"
    and "truthy (requestId st) \<noteq> truthy (nextURL st)"
  shows "login sv request samlResponse (Some st) tr =
           (Failed (Boom_badRequest
              ''SAML response state does not have corresponding request id or redirect URL.'')
              None, tr)"
proof -
  from assms(1) have "authenticateViaState sv request st tr = (NotHandled, tr)"
    by (cases "accessToken st") (simp_all add: authenticateViaState_def)
  moreover from assms(2) have "\<not> truthy (requestId st) \<or> \<not> truthy (nextURL st)"
    by auto
  ultimately show ?thesis
    by (simp add: login_def loginWithSAMLResponse_malformed)
qed

theorem login_malformed_state_witness:
  "\<not> truthy (accessToken (handshake_state\<lparr>nextURL := None\<rparr>))
   \<and> truthy (requestId (handshake_state\<lparr>nextURL := None\<rparr>))
       \<noteq> truthy (nextURL (handshake_state\<lparr>nextURL := None\<rparr>))
   \<and> login es_up browser_request ''PHNhbWw+'' (Some (handshake_state\<lparr>nextURL := None\<rparr>)) [] =
       (Failed (Boom 400
          ''SAML response state does not have corresponding request id or redirect URL.'')
          None, [])"
proof -
  have h1: "\<not> truthy (accessToken (handshake_state\<lparr>nextURL := None\<rparr>))"
    by (simp add: handshake_state_def)
  have h2: "truthy (requestId (handshake_state\<lparr>nextURL := None\<rparr>))
              \<noteq> truthy (nextURL (handshake_state\<lparr>nextURL := None\<rparr>))"
    by (simp add: handshake_state_def)
  show ?thesis
    using h1 h2 login_malformed_state [OF h1 h2, of es_up browser_request "''PHNhbWw+''" "[]"]
    by (simp add: Boom_badRequest_def)
qed

text \<open>
  Without the condition on the access token the statement fails: a state of a valid
  session that also holds a request id, and no redirect URL, is reconciled with the new
  SAML response and the login ends in a redirect.
\<close>

theorem login_malformed_state_counterexample:
  "truthy (requestId (session_state\<lparr>requestId := Some ''request-1''\<rparr>))
     \<noteq> truthy (nextURL (session_state\<lparr>requestId := Some ''request-1''\<rparr>))
   \<and> login es_up browser_request ''PHNhbWw+''
        (Some (session_state\<lparr>requestId := Some ''request-1''\<rparr>)) [] =
       (RedirectTo ''/base/''
          (Some \<lparr>accessToken = Some ''new-access'', refreshToken = Some ''new-refresh'',
                 requestId = None, nextURL = None\<rparr>),
        [GetUser browser_request (Some [(''authorization'', ''Bearer old-access'')]),
         SamlAuthenticate [] ''PHNhbWw+'',
         GetUser browser_request (Some [(''authorization'', ''Bearer new-access'')]),
         TokensInvalidate (Some ''old-access'') (Some ''old-refresh'')])"
  by (simp add: login_def authenticateViaState_def loginWithNewSAMLResponse_def
      loginWithSAMLResponse_def session_state_def es_up_def Let_def)

subsection \<open>Login over an existing session\<close>

text \<open>
  C3. In \<open>loginWithNewSAMLResponse\<close>, once the SAML response has been exchanged for tokens
  and the user of the new tokens has been resolved, the token pair of the existing session
  is invalidated. When that call throws, the function returns the failure with the thrown
  error, whether the new user and the user of the session are the same or not (nothing
  relates \<open>newUser\<close> and \<open>user\<close> below): the comparison comes after the invalidation, and a
  failure carries no state, so the new state is not passed on.
\<close>

theorem loginWithNewSAMLResponse_invalidate_throws:
  assumes exchange: "samlAuthenticate sv tr [] samlResponse = Inr response"
    and token: "access_token response \<noteq> []"
    and resolved:
      "getUser sv (tr @ [SamlAuthenticate [] samlResponse]) request
         (Some [(''authorization'', ''Bearer '' @ access_token response)]) = Inr newUser"
    and invalidate:
      "tokens_invalidate sv
         (tr @ [SamlAuthenticate [] samlResponse,
                GetUser request (Some [(''authorization'', ''Bearer '' @ access_token response)])])
         (accessToken existing) (refreshToken existing) = Inl err"
  shows "loginWithNewSAMLResponse sv request samlResponse (Some existing) user tr =
           (Failed err None,
            tr @ [SamlAuthenticate [] samlResponse,
                  GetUser request (Some [(''authorization'', ''Bearer '' @ access_token response)]),
                  TokensInvalidate (accessToken existing) (refreshToken existing)])
       \<and> result_state
           (fst (loginWithNewSAMLResponse sv request samlResponse (Some existing) user tr)) = None"
  using assms
  by (simp add: loginWithNewSAMLResponse_def loginWithSAMLResponse_def authenticateViaState_def
      Let_def)

theorem loginWithNewSAMLResponse_invalidate_throws_witness:
  "loginWithNewSAMLResponse es_no_invalidate browser_request ''PHNhbWw+'' (Some session_state)
     bob [] =
     (Failed (Boom 503 ''unavailable'') None,
      [SamlAuthenticate [] ''PHNhbWw+'',
       GetUser browser_request (Some [(''authorization'', ''Bearer new-access'')]),
       TokensInvalidate (Some ''old-access'') (Some ''old-refresh'')])"
proof -
  have exchange: "samlAuthenticate es_no_invalidate [] [] ''PHNhbWw+'' =
      Inr \<lparr>access_token = ''new-access'', refresh_token = ''new-refresh''\<rparr>"
    by (simp add: es_no_invalidate_def es_up_def)
  have token: "access_token \<lparr>access_token = ''new-access'', refresh_token = ''new-refresh''\<rparr> \<noteq> []"
    by simp
  have resolved: "getUser es_no_invalidate ([] @ [SamlAuthenticate [] ''PHNhbWw+'']) browser_request
      (Some [(''authorization'', ''Bearer '' @
         access_token \<lparr>access_token = ''new-access'', refresh_token = ''new-refresh''\<rparr>)]) = Inr alice"
    by (simp add: es_no_invalidate_def es_up_def)
  have invalidate: "tokens_invalidate es_no_invalidate
      ([] @ [SamlAuthenticate [] ''PHNhbWw+'',
             GetUser browser_request (Some [(''authorization'', ''Bearer '' @
               access_token \<lparr>access_token = ''new-access'', refresh_token = ''new-refresh''\<rparr>)])])
      (accessToken session_state) (refreshToken session_state) = Inl (Boom 503 ''unavailable'')"
    by (simp add: es_no_invalidate_def es_up_def)
  show ?thesis
    using loginWithNewSAMLResponse_invalidate_throws
      [OF exchange token resolved invalidate, of bob]
    by (simp add: session_state_def)
qed

text \<open>
  C5. In \<open>loginWithNewSAMLResponse\<close>, after the exchange of the SAML response, the
  resolution of the new user and the invalidation of the old token pair have all succeeded:
  when the new user and the user of the session differ in the username or in the name of
  the authentication realm, the result is the redirect to \<^verbatim>\<open>/overwritten_session\<close> under the
  base path, carrying the new state; when both agree, the result is the result of the
  exchange itself, the redirect to the root under the base path carrying the same new
  token pair.
\<close>

theorem loginWithNewSAMLResponse_users:
  assumes exchange: "samlAuthenticate sv tr [] samlResponse = Inr response"
    and token: "access_token response \<noteq> []"
    and resolved:
      "getUser sv (tr @ [SamlAuthenticate [] samlResponse]) request
         (Some [(''authorization'', ''Bearer '' @ access_token response)]) = Inr newUser"
    and invalidate:
      "tokens_invalidate sv
         (tr @ [SamlAuthenticate [] samlResponse,
                GetUser request (Some [(''authorization'', ''Bearer '' @ access_token response)])])
         (accessToken existing) (refreshToken existing) = Inr ()"
  shows "fst (loginWithNewSAMLResponse sv request samlResponse (Some existing) user tr) =
           (if username newUser \<noteq> username user
               \<or> authentication_realm_name newUser \<noteq> authentication_realm_name user
            then RedirectTo (basePath_get sv request @ ''/overwritten_session'')
                   (Some \<lparr>accessToken = Some (access_token response),
                          refreshToken = Some (refresh_token response),
                          requestId = None, nextURL = None\<rparr>)
            else fst (loginWithSAMLResponse sv request samlResponse None tr))
       \<and> fst (loginWithSAMLResponse sv request samlResponse None tr) =
           RedirectTo (basePath_get sv request @ ''/'')
             (Some \<lparr>accessToken = Some (access_token response),
                    refreshToken = Some (refresh_token response),
                    requestId = None, nextURL = None\<rparr>)
       \<and> snd (loginWithNewSAMLResponse sv request samlResponse (Some existing) user tr) =
           tr @ [SamlAuthenticate [] samlResponse,
                 GetUser request (Some [(''authorization'', ''Bearer '' @ access_token response)]),
                 TokensInvalidate (accessToken existing) (refreshToken existing)]"
  using assms
  by (simp add: loginWithNewSAMLResponse_def loginWithSAMLResponse_def authenticateViaState_def
      Let_def)

text \<open>
  The new tokens belong to \<open>alice\<close>: over the session of \<open>bob\<close> the login ends on the
  notice page, over her own session on the root.
\<close>

theorem loginWithNewSAMLResponse_users_witness:
  "fst (loginWithNewSAMLResponse es_up browser_request ''PHNhbWw+'' (Some session_state) bob []) =
     RedirectTo ''/base/overwritten_session''
       (Some \<lparr>accessToken = Some ''new-access'', refreshToken = Some ''new-refresh'',
              requestId = None, nextURL = None\<rparr>)
   \<and> fst (loginWithNewSAMLResponse es_up browser_request ''PHNhbWw+'' (Some session_state) alice []) =
     RedirectTo ''/base/''
       (Some \<lparr>accessToken = Some ''new-access'', refreshToken = Some ''new-refresh'',
              requestId = None, nextURL = None\<rparr>)"
proof -
  have exchange: "samlAuthenticate es_up [] [] ''PHNhbWw+'' =
      Inr \<lparr>access_token = ''new-access'', refresh_token = ''new-refresh''\<rparr>"
    by (simp add: es_up_def)
  have token: "access_token \<lparr>access_token = ''new-access'', refresh_token = ''new-refresh''\<rparr> \<noteq> []"
    by simp
  have resolved: "getUser es_up ([] @ [SamlAuthenticate [] ''PHNhbWw+'']) browser_request
      (Some [(''authorization'', ''Bearer '' @
         access_token \<lparr>access_token = ''new-access'', refresh_token = ''new-refresh''\<rparr>)]) = Inr alice"
    by (simp add: es_up_def)
  have invalidate: "tokens_invalidate es_up
      ([] @ [SamlAuthenticate [] ''PHNhbWw+'',
             GetUser browser_request (Some [(''authorization'', ''Bearer '' @
               access_token \<lparr>access_token = ''new-access'', refresh_token = ''new-refresh''\<rparr>)])])
      (accessToken session_state) (refreshToken session_state) = Inr ()"
    by (simp add: es_up_def)
  show ?thesis
    using loginWithNewSAMLResponse_users [OF exchange token resolved invalidate, of bob]
      loginWithNewSAMLResponse_users [OF exchange token resolved invalidate, of alice]
    by (simp add: alice_def bob_def es_up_def)
qed

subsection \<open>The exchange of a SAML response\<close>

text \<open>
  C6. In \<open>loginWithSAMLResponse\<close> the exchange is made without a state, or with a state
  that holds a request id and a redirect URL. Whenever it succeeds, the result is a redirect
  whose state is the new access and refresh token and nothing else (no request id, no
  redirect URL). Its target is the \<^verbatim>\<open>nextURL\<close> of the state when there is a state, and the
  root under the base path when there is none.
\<close>

theorem loginWithSAMLResponse_exchange:
  "(samlAuthenticate sv tr [] samlResponse = Inr response \<longrightarrow>
      loginWithSAMLResponse sv request samlResponse None tr =
        (RedirectTo (basePath_get sv request @ ''/'')
           (Some \<lparr>accessToken = Some (access_token response),
                  refreshToken = Some (refresh_token response),
                  requestId = None, nextURL = None\<rparr>),
         tr @ [SamlAuthenticate [] samlResponse]))
 \<and> (requestId st = Some stateRequestId \<and> stateRequestId \<noteq> []
      \<and> nextURL st = Some stateRedirectURL \<and> stateRedirectURL \<noteq> []
      \<and> samlAuthenticate sv tr [stateRequestId] samlResponse = Inr response \<longrightarrow>
      loginWithSAMLResponse sv request samlResponse (Some st) tr =
        (RedirectTo stateRedirectURL
           (Some \<lparr>accessToken = Some (access_token response),
                  refreshToken = Some (refresh_token response),
                  requestId = None, nextURL = None\<rparr>),
         tr @ [SamlAuthenticate [stateRequestId] samlResponse]))"
  by (simp add: loginWithSAMLResponse_def)

theorem loginWithSAMLResponse_exchange_witness:
  "loginWithSAMLResponse es_up browser_request ''PHNhbWw+'' None [] =
     (RedirectTo ''/base/''
        (Some \<lparr>accessToken = Some ''new-access'', refreshToken = Some ''new-refresh'',
               requestId = None, nextURL = None\<rparr>),
      [SamlAuthenticate [] ''PHNhbWw+''])
   \<and> loginWithSAMLResponse es_up browser_request ''PHNhbWw+'' (Some handshake_state) [] =
     (RedirectTo ''/base/app/kibana''
        (Some \<lparr>accessToken = Some ''new-access'', refreshToken = Some ''new-refresh'',
               requestId = None, nextURL = None\<rparr>),
      [SamlAuthenticate [''request-1''] ''PHNhbWw+''])"
proof -
  have idp: "samlAuthenticate es_up [] [] ''PHNhbWw+'' =
      Inr \<lparr>access_token = ''new-access'', refresh_token = ''new-refresh''\<rparr>"
    by (simp add: es_up_def)
  have sp: "requestId handshake_state = Some ''request-1'' \<and> ''request-1'' \<noteq> []
      \<and> nextURL handshake_state = Some ''/base/app/kibana'' \<and> ''/base/app/kibana'' \<noteq> []
      \<and> samlAuthenticate es_up [] [''request-1''] ''PHNhbWw+'' =
          Inr \<lparr>access_token = ''new-access'', refresh_token = ''new-refresh''\<rparr>"
    by (simp add: es_up_def handshake_state_def)
  show ?thesis
    using idp sp
      loginWithSAMLResponse_exchange [of es_up "[]" "''PHNhbWw+''"
        "\<lparr>access_token = ''new-access'', refresh_token = ''new-refresh''\<rparr>" browser_request
        handshake_state "''request-1''" "''/base/app/kibana''"]
    by (simp add: es_up_def)
qed

subsection \<open>The authenticate chain after the state strategy has failed\<close>

text \<open>
  C7. In \<open>authenticate\<close>, when the header strategy leaves the request to the state strategy
  and the state strategy fails (the user of the stored access token cannot be resolved,
  with the error \<open>err\<close>): when \<open>err\<close> is not an expired access token, \<open>authenticate\<close>
  returns that failure as it is, and the only call made is the one of the state strategy;
  when \<open>err\<close> is an expired access token, \<open>authenticate\<close> goes on with the refresh
  strategy (and with the handshake when that one does not handle the request), and with a
  stored refresh token the next call made is the refresh of that token.
\<close>

theorem authenticate_refresh_iff_expired:
  assumes header: "authenticateViaHeader sv request tr = ((NotHandled, False), tr)"
    and token: "accessToken st = Some token" "token \<noteq> []"
    and fails: "getUser sv tr request (Some [(''authorization'', ''Bearer '' @ token)]) = Inl err"
  shows "(\<not> isAccessTokenExpiredError sv err \<longrightarrow>
            authenticate sv realm request (Some st) tr =
              (Failed err None,
               tr @ [GetUser request (Some [(''authorization'', ''Bearer '' @ token)])]))
       \<and> (isAccessTokenExpiredError sv err \<longrightarrow>
            authenticate sv realm request (Some st) tr =
              (case authenticateViaRefreshToken sv realm request st
                      (tr @ [GetUser request (Some [(''authorization'', ''Bearer '' @ token)])]) of
                 (result, tr') \<Rightarrow>
                   if notHandled result then authenticateViaHandshake sv realm request tr'
                   else (result, tr')))
       \<and> (isAccessTokenExpiredError sv err \<and> refreshToken st = Some refresh \<and> refresh \<noteq> [] \<longrightarrow>
            (\<exists>rest. snd (authenticate sv realm request (Some st) tr) =
               tr @ [GetUser request (Some [(''authorization'', ''Bearer '' @ token)]),
                     TokensRefresh refresh] @ rest))"
  using assms
  by (auto simp add: authenticate_def authenticateViaState_def authenticateViaRefreshToken_def
      authenticateViaHandshake_def Let_def
      split: prod.splits authentication_result.splits sum.splits option.splits)

text \<open>
  With the status 503 the failure is returned after one call; with the status 401 the
  refresh token is tried next.
\<close>

theorem authenticate_refresh_iff_expired_witness:
  "authenticate es_unavailable None browser_request (Some session_state) [] =
     (Failed (Boom 503 ''unavailable'') None,
      [GetUser browser_request (Some [(''authorization'', ''Bearer old-access'')])])
   \<and> take 2 (snd (authenticate es_expired None browser_request (Some session_state) [])) =
       [GetUser browser_request (Some [(''authorization'', ''Bearer old-access'')]),
        TokensRefresh ''old-refresh'']"
proof -
  have token: "accessToken session_state = Some ''old-access''" "''old-access'' \<noteq> []"
    by (simp_all add: session_state_def)
  have h1: "authenticateViaHeader es_unavailable browser_request [] = ((NotHandled, False), [])"
    by (simp add: authenticateViaHeader_def browser_request_def)
  have f1: "getUser es_unavailable [] browser_request
              (Some [(''authorization'', ''Bearer '' @ ''old-access'')]) = Inl (Boom 503 ''unavailable'')"
    by (simp add: es_unavailable_def es_up_def)
  have n1: "\<not> isAccessTokenExpiredError es_unavailable (Boom 503 ''unavailable'')"
    by (simp add: es_unavailable_def es_up_def)
  have h2: "authenticateViaHeader es_expired browser_request [] = ((NotHandled, False), [])"
    by (simp add: authenticateViaHeader_def browser_request_def)
  have f2: "getUser es_expired [] browser_request
              (Some [(''authorization'', ''Bearer '' @ ''old-access'')]) = Inl (Boom 401 ''token expired'')"
    by (simp add: es_expired_def es_up_def)
  have e2: "isAccessTokenExpiredError es_expired (Boom 401 ''token expired'')
              \<and> refreshToken session_state = Some ''old-refresh'' \<and> ''old-refresh'' \<noteq> []"
    by (simp add: es_expired_def es_up_def session_state_def)
  have "authenticate es_unavailable None browser_request (Some session_state) [] =
     (Failed (Boom 503 ''unavailable'') None,
      [GetUser browser_request (Some [(''authorization'', ''Bearer old-access'')])])"
    using authenticate_refresh_iff_expired [OF h1 token f1, of None] n1 by simp
  moreover have "take 2 (snd (authenticate es_expired None browser_request (Some session_state) [])) =
       [GetUser browser_request (Some [(''authorization'', ''Bearer old-access'')]),
        TokensRefresh ''old-refresh'']"
    using authenticate_refresh_iff_expired [OF h2 token f2, of None "''old-refresh''"] e2 by auto
  ultimately show ?thesis by simp
qed

text \<open>
  C4, as amended. In \<open>authenticate\<close>, when the stored access token has expired and the
  refresh of the stored refresh token returns null: for a request that cannot be
  redirected the result is the failure with the bad-request error; for a request that can
  be redirected the result is the one of a fresh handshake, that is the redirect to the
  identity provider with the new request id and the requested URL as state when the
  prepare operation succeeds, and the failure with its error when that operation throws.
\<close>

theorem authenticate_refresh_null:
  assumes header: "authenticateViaHeader sv request tr = ((NotHandled, False), tr)"
    and token: "accessToken st = Some token" "token \<noteq> []"
    and fails: "getUser sv tr request (Some [(''authorization'', ''Bearer '' @ token)]) = Inl err"
    and expired: "isAccessTokenExpiredError sv err"
    and refresh: "refreshToken st = Some refresh" "refresh \<noteq> []"
    and null:
      "tokens_refresh sv
         (tr @ [GetUser request (Some [(''authorization'', ''Bearer '' @ token)])]) refresh = Inr None"
  shows "(\<not> canRedirectRequest sv request \<longrightarrow>
            authenticate sv realm request (Some st) tr =
              (Failed (Boom_badRequest ''Both access and refresh tokens are expired.'') None,
               tr @ [GetUser request (Some [(''authorization'', ''Bearer '' @ token)]),
                     TokensRefresh refresh]))
       \<and> (canRedirectRequest sv request \<longrightarrow>
            authenticate sv realm request (Some st) tr =
              (case samlPrepare sv
                      (tr @ [GetUser request (Some [(''authorization'', ''Bearer '' @ token)]),
                             TokensRefresh refresh])
                      (realm_or_getACS sv realm request) of
                 Inr response \<Rightarrow>
                   RedirectTo (prepare_redirect response)
                     (Some \<lparr>accessToken = None, refreshToken = None,
                            requestId = Some (prepare_id response),
                            nextURL = Some (basePath_get sv request @ url_path request)\<rparr>)
               | Inl err' \<Rightarrow> Failed err' None,
               tr @ [GetUser request (Some [(''authorization'', ''Bearer '' @ token)]),
                     TokensRefresh refresh,
                     SamlPrepare (realm_or_getACS sv realm request)]))"
  using assms
  by (simp add: authenticate_def authenticateViaState_def authenticateViaRefreshToken_def
      authenticateViaHandshake_def Let_def split: sum.splits)

text \<open>
  A browser is sent to the identity provider; a request that cannot follow a redirect gets
  the status 400.
\<close>

theorem authenticate_refresh_null_witness:
  "authenticate es_expired None browser_request (Some session_state) [] =
     (RedirectTo ''https://idp.example/sso''
        (Some \<lparr>accessToken = None, refreshToken = None,
               requestId = Some ''request-2'', nextURL = Some ''/base/app/kibana''\<rparr>),
      [GetUser browser_request (Some [(''authorization'', ''Bearer old-access'')]),
       TokensRefresh ''old-refresh'',
       SamlPrepare (Acs ''https://kibana.example/base/api/security/v1/saml'')])
   \<and> authenticate es_expired_ajax None browser_request (Some session_state) [] =
     (Failed (Boom 400 ''Both access and refresh tokens are expired.'') None,
      [GetUser browser_request (Some [(''authorization'', ''Bearer old-access'')]),
       TokensRefresh ''old-refresh''])"
proof -
  have token: "accessToken session_state = Some ''old-access''" "''old-access'' \<noteq> []"
    by (simp_all add: session_state_def)
  have refresh: "refreshToken session_state = Some ''old-refresh''" "''old-refresh'' \<noteq> []"
    by (simp_all add: session_state_def)
  have h1: "authenticateViaHeader es_expired browser_request [] = ((NotHandled, False), [])"
    by (simp add: authenticateViaHeader_def browser_request_def)
  have f1: "getUser es_expired [] browser_request
              (Some [(''authorization'', ''Bearer '' @ ''old-access'')]) = Inl (Boom 401 ''token expired'')"
    by (simp add: es_expired_def es_up_def)
  have e1: "isAccessTokenExpiredError es_expired (Boom 401 ''token expired'')"
    by (simp add: es_expired_def es_up_def)
  have n1: "tokens_refresh es_expired
      ([] @ [GetUser browser_request (Some [(''authorization'', ''Bearer '' @ ''old-access'')])])
      ''old-refresh'' = Inr None"
    by (simp add: es_expired_def es_up_def)
  have h2: "authenticateViaHeader es_expired_ajax browser_request [] = ((NotHandled, False), [])"
    by (simp add: authenticateViaHeader_def browser_request_def)
  have f2: "getUser es_expired_ajax [] browser_request
              (Some [(''authorization'', ''Bearer '' @ ''old-access'')]) = Inl (Boom 401 ''token expired'')"
    by (simp add: es_expired_ajax_def es_expired_def es_up_def)
  have e2: "isAccessTokenExpiredError es_expired_ajax (Boom 401 ''token expired'')"
    by (simp add: es_expired_ajax_def es_expired_def es_up_def)
  have n2: "tokens_refresh es_expired_ajax
      ([] @ [GetUser browser_request (Some [(''authorization'', ''Bearer '' @ ''old-access'')])])
      ''old-refresh'' = Inr None"
    by (simp add: es_expired_ajax_def es_expired_def es_up_def)
  show ?thesis
    using authenticate_refresh_null [OF h1 token f1 e1 refresh n1, of None]
      authenticate_refresh_null [OF h2 token f2 e2 refresh n2, of None]
    by (simp add: es_expired_ajax_def es_expired_def es_up_def realm_or_getACS_def getACS_def
        browser_request_def Boom_badRequest_def)
qed

text \<open>
  The statement without the case of a throwing prepare operation fails: the request can be
  redirected, the refresh returns null, and the result is a failure.
\<close>

theorem authenticate_refresh_null_counterexample:
  "canRedirectRequest es_expired_no_prepare browser_request
   \<and> tokens_refresh es_expired_no_prepare
       [GetUser browser_request (Some [(''authorization'', ''Bearer old-access'')])]
       ''old-refresh'' = Inr None
   \<and> authenticate es_expired_no_prepare None browser_request (Some session_state) [] =
       (Failed (Boom 503 ''unavailable'') None,
        [GetUser browser_request (Some [(''authorization'', ''Bearer old-access'')]),
         TokensRefresh ''old-refresh'',
         SamlPrepare (Acs ''https://kibana.example/base/api/security/v1/saml'')])"
  by (simp add: authenticate_def authenticateViaHeader_def authenticateViaState_def
      authenticateViaRefreshToken_def authenticateViaHandshake_def Let_def
      es_expired_no_prepare_def es_expired_def es_up_def realm_or_getACS_def getACS_def
      browser_request_def session_state_def)

text \<open>
  C10, as amended. In \<open>authenticate\<close>, when the stored access token has expired and the
  state holds no refresh token, the refresh strategy returns \<open>NotHandled\<close> without a call,
  and \<open>authenticate\<close> returns what the handshake strategy returns: \<open>NotHandled\<close> for a
  request that cannot be redirected; for one that can, the redirect to the identity
  provider with the new request id and the requested URL as state when the prepare
  operation succeeds, and the failure with its error when that operation throws.
\<close>

theorem authenticate_no_refresh_token:
  assumes header: "authenticateViaHeader sv request tr = ((NotHandled, False), tr)"
    and token: "accessToken st = Some token" "token \<noteq> []"
    and fails: "getUser sv tr request (Some [(''authorization'', ''Bearer '' @ token)]) = Inl err"
    and expired: "isAccessTokenExpiredError sv err"
    and no_refresh: "\<not> truthy (refreshToken st)"
  shows "authenticateViaRefreshToken sv realm request st
           (tr @ [GetUser request (Some [(''authorization'', ''Bearer '' @ token)])]) =
           (NotHandled, tr @ [GetUser request (Some [(''authorization'', ''Bearer '' @ token)])])
       \<and> authenticate sv realm request (Some st) tr =
           authenticateViaHandshake sv realm request
             (tr @ [GetUser request (Some [(''authorization'', ''Bearer '' @ token)])])
       \<and> (\<not> canRedirectRequest sv request \<longrightarrow>
            authenticate sv realm request (Some st) tr =
              (NotHandled, tr @ [GetUser request (Some [(''authorization'', ''Bearer '' @ token)])]))
       \<and> (canRedirectRequest sv request \<longrightarrow>
            authenticate sv realm request (Some st) tr =
              (case samlPrepare sv
                      (tr @ [GetUser request (Some [(''authorization'', ''Bearer '' @ token)])])
                      (realm_or_getACS sv realm request) of
                 Inr response \<Rightarrow>
                   RedirectTo (prepare_redirect response)
                     (Some \<lparr>accessToken = None, refreshToken = None,
                            requestId = Some (prepare_id response),
                            nextURL = Some (basePath_get sv request @ url_path request)\<rparr>)
               | Inl err' \<Rightarrow> Failed err' None,
               tr @ [GetUser request (Some [(''authorization'', ''Bearer '' @ token)]),
                     SamlPrepare (realm_or_getACS sv realm request)]))"
proof -
  let ?tr1 = "tr @ [GetUser request (Some [(''authorization'', ''Bearer '' @ token)])]"
  from no_refresh have refresh: "authenticateViaRefreshToken sv realm request st ?tr1 = (NotHandled, ?tr1)"
    by (cases "refreshToken st") (simp_all add: authenticateViaRefreshToken_def)
  from header token fails expired
  have chain: "authenticate sv realm request (Some st) tr =
                 authenticateViaHandshake sv realm request ?tr1"
    using refresh by (simp add: authenticate_def authenticateViaState_def Let_def)
  show ?thesis
    using refresh chain by (simp add: authenticateViaHandshake_def Let_def split: sum.splits)
qed

text \<open>
  A browser is sent to the identity provider, or gets the error of the prepare operation
  when that one is rejected; a request that cannot follow a redirect is not handled.
\<close>

theorem authenticate_no_refresh_token_witness:
  "authenticate es_expired None browser_request
     (Some (session_state\<lparr>refreshToken := None\<rparr>)) [] =
     (RedirectTo ''https://idp.example/sso''
        (Some \<lparr>accessToken = None, refreshToken = None,
               requestId = Some ''request-2'', nextURL = Some ''/base/app/kibana''\<rparr>),
      [GetUser browser_request (Some [(''authorization'', ''Bearer old-access'')]),
       SamlPrepare (Acs ''https://kibana.example/base/api/security/v1/saml'')])
   \<and> authenticate es_expired_ajax None browser_request
       (Some (session_state\<lparr>refreshToken := None\<rparr>)) [] =
     (NotHandled,
      [GetUser browser_request (Some [(''authorization'', ''Bearer old-access'')])])
   \<and> authenticate es_expired_no_prepare None browser_request
       (Some (session_state\<lparr>refreshToken := None\<rparr>)) [] =
     (Failed (Boom 503 ''unavailable'') None,
      [GetUser browser_request (Some [(''authorization'', ''Bearer old-access'')]),
       SamlPrepare (Acs ''https://kibana.example/base/api/security/v1/saml'')])"
proof -
  have token: "accessToken (session_state\<lparr>refreshToken := None\<rparr>) = Some ''old-access''"
      "''old-access'' \<noteq> []"
    by (simp_all add: session_state_def)
  have no_refresh: "\<not> truthy (refreshToken (session_state\<lparr>refreshToken := None\<rparr>))"
    by simp
  have h1: "authenticateViaHeader es_expired browser_request [] = ((NotHandled, False), [])"
    by (simp add: authenticateViaHeader_def browser_request_def)
  have f1: "getUser es_expired [] browser_request
              (Some [(''authorization'', ''Bearer '' @ ''old-access'')]) = Inl (Boom 401 ''token expired'')"
    by (simp add: es_expired_def es_up_def)
  have e1: "isAccessTokenExpiredError es_expired (Boom 401 ''token expired'')"
    by (simp add: es_expired_def es_up_def)
  have c1: "canRedirectRequest es_expired browser_request"
    by (simp add: es_expired_def es_up_def)
  have h2: "authenticateViaHeader es_expired_ajax browser_request [] = ((NotHandled, False), [])"
    by (simp add: authenticateViaHeader_def browser_request_def)
  have f2: "getUser es_expired_ajax [] browser_request
              (Some [(''authorization'', ''Bearer '' @ ''old-access'')]) = Inl (Boom 401 ''token expired'')"
    by (simp add: es_expired_ajax_def es_expired_def es_up_def)
  have e2: "isAccessTokenExpiredError es_expired_ajax (Boom 401 ''token expired'')"
    by (simp add: es_expired_ajax_def es_expired_def es_up_def)
  have c2: "\<not> canRedirectRequest es_expired_ajax browser_request"
    by (simp add: es_expired_ajax_def)
  have h3: "authenticateViaHeader es_expired_no_prepare browser_request [] =
              ((NotHandled, False), [])"
    by (simp add: authenticateViaHeader_def browser_request_def)
  have f3: "getUser es_expired_no_prepare [] browser_request
              (Some [(''authorization'', ''Bearer '' @ ''old-access'')]) = Inl (Boom 401 ''token expired'')"
    by (simp add: es_expired_no_prepare_def es_expired_def es_up_def)
  have e3: "isAccessTokenExpiredError es_expired_no_prepare (Boom 401 ''token expired'')"
    by (simp add: es_expired_no_prepare_def es_expired_def es_up_def)
  have c3: "canRedirectRequest es_expired_no_prepare browser_request"
    by (simp add: es_expired_no_prepare_def es_expired_def es_up_def)
  note browser = authenticate_no_refresh_token [OF h1 token f1 e1 no_refresh, of None,
      THEN conjunct2, THEN conjunct2, THEN conjunct2, THEN mp, OF c1]
  note ajax = authenticate_no_refresh_token [OF h2 token f2 e2 no_refresh, of None,
      THEN conjunct2, THEN conjunct2, THEN conjunct1, THEN mp, OF c2]
  note rejected = authenticate_no_refresh_token [OF h3 token f3 e3 no_refresh, of None,
      THEN conjunct2, THEN conjunct2, THEN conjunct2, THEN mp, OF c3]
  have "authenticate es_expired None browser_request
          (Some (session_state\<lparr>refreshToken := None\<rparr>)) [] =
        (RedirectTo ''https://idp.example/sso''
           (Some \<lparr>accessToken = None, refreshToken = None,
                  requestId = Some ''request-2'', nextURL = Some ''/base/app/kibana''\<rparr>),
         [GetUser browser_request (Some [(''authorization'', ''Bearer old-access'')]),
          SamlPrepare (Acs ''https://kibana.example/base/api/security/v1/saml'')])"
    using browser
    by (simp add: es_expired_def es_up_def realm_or_getACS_def getACS_def browser_request_def)
  moreover have "authenticate es_expired_ajax None browser_request
          (Some (session_state\<lparr>refreshToken := None\<rparr>)) [] =
        (NotHandled,
         [GetUser browser_request (Some [(''authorization'', ''Bearer old-access'')])])"
    using ajax by simp
  moreover have "authenticate es_expired_no_prepare None browser_request
          (Some (session_state\<lparr>refreshToken := None\<rparr>)) [] =
        (Failed (Boom 503 ''unavailable'') None,
         [GetUser browser_request (Some [(''authorization'', ''Bearer old-access'')]),
          SamlPrepare (Acs ''https://kibana.example/base/api/security/v1/saml'')])"
    using rejected
    by (simp add: es_expired_no_prepare_def es_expired_def es_up_def realm_or_getACS_def
        getACS_def browser_request_def)
  ultimately show ?thesis by simp
qed

text \<open>
  The statement that a request that can be redirected always gets the redirect fails: the
  state holds an expired access token and no refresh token, the request can be redirected,
  the prepare operation is rejected, and the result is a failure.
\<close>

theorem authenticate_no_refresh_token_counterexample:
  "canRedirectRequest es_expired_no_prepare browser_request
   \<and> \<not> truthy (refreshToken (session_state\<lparr>refreshToken := None\<rparr>))
   \<and> getUser es_expired_no_prepare [] browser_request
       (Some [(''authorization'', ''Bearer old-access'')]) = Inl (Boom 401 ''token expired'')
   \<and> isAccessTokenExpiredError es_expired_no_prepare (Boom 401 ''token expired'')
   \<and> authenticate es_expired_no_prepare None browser_request
       (Some (session_state\<lparr>refreshToken := None\<rparr>)) [] =
       (Failed (Boom 503 ''unavailable'') None,
        [GetUser browser_request (Some [(''authorization'', ''Bearer old-access'')]),
         SamlPrepare (Acs ''https://kibana.example/base/api/security/v1/saml'')])"
  by (simp add: authenticate_def authenticateViaHeader_def authenticateViaState_def
      authenticateViaRefreshToken_def authenticateViaHandshake_def Let_def
      es_expired_no_prepare_def es_expired_def es_up_def realm_or_getACS_def getACS_def
      browser_request_def session_state_def)

subsection \<open>Logout\<close>

text \<open>
  C8. \<open>logout\<close> returns \<open>DNotHandled\<close> exactly when the state holds no access token (there
  is no state, or its access token is undefined or empty, as \<^verbatim>\<open>!state.accessToken\<close> tests)
  and the query of the request holds no \<^verbatim>\<open>SAMLRequest\<close> parameter (undefined or empty).
  Otherwise, when the single-logout operation does not throw (the invalidate operation for
  a query with \<^verbatim>\<open>SAMLRequest\<close>, the logout operation with the token pair of the state
  without), \<open>logout\<close> returns the redirect to the URL that the operation answers with, and
  the redirect to \<^verbatim>\<open>/logged_out\<close> when it answers with none.
\<close>

theorem logout_result:
  "(fst (logout sv realm request state tr) = Inr DNotHandled \<longleftrightarrow>
      (case state of None \<Rightarrow> True | Some st \<Rightarrow> \<not> truthy (accessToken st))
      \<and> \<not> truthy (query_SAMLRequest request))
 \<and> (truthy (query_SAMLRequest request)
      \<and> samlInvalidate sv tr
          (if truthy (url_search request) then drop 1 (or_else (url_search request) []) else [])
          (realm_or_getACS sv realm request) = Inr redirect \<longrightarrow>
      fst (logout sv realm request state tr) =
        Inr (DRedirectTo (case redirect of Some url \<Rightarrow> url | None \<Rightarrow> ''/logged_out'')))
 \<and> (\<not> truthy (query_SAMLRequest request) \<and> state = Some st \<and> truthy (accessToken st)
      \<and> samlLogout sv tr (accessToken st) (refreshToken st) = Inr redirect \<longrightarrow>
      fst (logout sv realm request state tr) =
        Inr (DRedirectTo (case redirect of Some url \<Rightarrow> url | None \<Rightarrow> ''/logged_out'')))"
  by (auto simp add: logout_def logout_try_def isSAMLRequestQuery_def
      performIdPInitiatedSingleLogout_def performUserInitiatedSingleLogout_def Let_def
      split: option.splits sum.splits prod.splits)

text \<open>
  Without session and without \<^verbatim>\<open>SAMLRequest\<close> there is nothing to log out. The session is
  logged out with a redirect to the identity provider, or to \<^verbatim>\<open>/logged_out\<close> when the
  identity provider has no single logout; so is the logout that the identity provider asks
  for.
\<close>

theorem logout_result_witness:
  "fst (logout es_up None browser_request None []) = Inr DNotHandled
   \<and> fst (logout es_up None browser_request (Some handshake_state) []) = Inr DNotHandled
   \<and> fst (logout es_slo None browser_request (Some session_state) []) =
       Inr (DRedirectTo ''https://idp.example/slo'')
   \<and> fst (logout es_up None browser_request (Some session_state) []) =
       Inr (DRedirectTo ''/logged_out'')
   \<and> fst (logout es_slo None idp_logout_request None []) =
       Inr (DRedirectTo ''https://idp.example/slo'')"
proof -
  note none = logout_result [of es_up None browser_request None "[]", THEN conjunct1]
  note handshake =
    logout_result [of es_up None browser_request "Some handshake_state" "[]", THEN conjunct1]
  have slo: "\<not> truthy (query_SAMLRequest browser_request)
      \<and> Some session_state = Some session_state \<and> truthy (accessToken session_state)
      \<and> samlLogout es_slo [] (accessToken session_state) (refreshToken session_state) =
          Inr (Some ''https://idp.example/slo'')"
    by (simp add: browser_request_def session_state_def es_slo_def es_up_def)
  have no_slo: "\<not> truthy (query_SAMLRequest browser_request)
      \<and> Some session_state = Some session_state \<and> truthy (accessToken session_state)
      \<and> samlLogout es_up [] (accessToken session_state) (refreshToken session_state) = Inr None"
    by (simp add: browser_request_def session_state_def es_up_def)
  have idp: "truthy (query_SAMLRequest idp_logout_request)
      \<and> samlInvalidate es_slo []
          (if truthy (url_search idp_logout_request)
           then drop 1 (or_else (url_search idp_logout_request) []) else [])
          (realm_or_getACS es_slo None idp_logout_request) = Inr (Some ''https://idp.example/slo'')"
    by (simp add: idp_logout_request_def es_slo_def es_up_def)
  note user_slo = logout_result [of es_slo None browser_request "Some session_state" "[]"
      _ session_state, THEN conjunct2, THEN conjunct2, THEN mp, OF slo]
  note user_no_slo = logout_result [of es_up None browser_request "Some session_state" "[]"
      _ session_state, THEN conjunct2, THEN conjunct2, THEN mp, OF no_slo]
  note idp_slo = logout_result [of es_slo None idp_logout_request None "[]",
      THEN conjunct2, THEN conjunct1, THEN mp, OF idp]
  show ?thesis
    using none handshake user_slo user_no_slo idp_slo
    by (simp add: browser_request_def handshake_state_def)
qed

text \<open>
  C9. For every request and state, and whatever the collaborators do, the promise of
  \<open>logout\<close> resolves to a result: no error escapes. An error that the single-logout
  operation throws, on the path of the identity provider as on the path of the user, is
  returned as the failure with that error. (A thrown value is an error object here, as the
  Elasticsearch client rejects with.)
\<close>

theorem logout_catches:
  "(\<exists>result. fst (logout sv realm request state tr) = Inr result)
 \<and> (truthy (query_SAMLRequest request)
      \<and> samlInvalidate sv tr
          (if truthy (url_search request) then drop 1 (or_else (url_search request) []) else [])
          (realm_or_getACS sv realm request) = Inl err \<longrightarrow>
      fst (logout sv realm request state tr) = Inr (DFailed err))
 \<and> (\<not> truthy (query_SAMLRequest request) \<and> state = Some st \<and> truthy (accessToken st)
      \<and> samlLogout sv tr (accessToken st) (refreshToken st) = Inl err \<longrightarrow>
      fst (logout sv realm request state tr) = Inr (DFailed err))"
  by (auto simp add: logout_def logout_try_def isSAMLRequestQuery_def
      performIdPInitiatedSingleLogout_def performUserInitiatedSingleLogout_def Let_def
      split: option.splits sum.splits prod.splits)

theorem logout_catches_witness:
  "fst (logout es_no_logout None browser_request (Some session_state) []) =
     Inr (DFailed (Boom 503 ''unavailable''))
   \<and> fst (logout es_no_logout None idp_logout_request (Some session_state) []) =
     Inr (DFailed (Boom 503 ''unavailable''))"
proof -
  have user: "\<not> truthy (query_SAMLRequest browser_request)
      \<and> Some session_state = Some session_state \<and> truthy (accessToken session_state)
      \<and> samlLogout es_no_logout [] (accessToken session_state) (refreshToken session_state) =
          Inl (Boom 503 ''unavailable'')"
    by (simp add: browser_request_def session_state_def es_no_logout_def es_up_def)
  have idp: "truthy (query_SAMLRequest idp_logout_request)
      \<and> samlInvalidate es_no_logout []
          (if truthy (url_search idp_logout_request)
           then drop 1 (or_else (url_search idp_logout_request) []) else [])
          (realm_or_getACS es_no_logout None idp_logout_request) = Inl (Boom 503 ''unavailable'')"
    by (simp add: idp_logout_request_def es_no_logout_def es_up_def)
  note by_user = logout_catches [of es_no_logout None browser_request "Some session_state" "[]"
      _ session_state, THEN conjunct2, THEN conjunct2, THEN mp, OF user]
  note by_idp = logout_catches [of es_no_logout None idp_logout_request "Some session_state" "[]",
      THEN conjunct2, THEN conjunct1, THEN mp, OF idp]
  show ?thesis
    using by_user by_idp by simp
qed

end
